theory Spec2Isabelle
  imports Main "HOL-Library.Word"
begin

section \<open>Data model\<close>

text \<open>
  The controller of \<^verbatim>\<open>pkg/controller/controller.go\<close> reacts to ADD, UPDATE and DELETE
  notifications about a \<^verbatim>\<open>MySQL\<close> custom resource by calling two API clients.  The
  embedding keeps the Go structs as records (only the fields the controller reads or
  writes; every field a composite literal leaves out holds Go's zero value), the two
  clients as functions over an abstract store, and every call the handlers issue as an
  entry of a trace, together with the error the client answered.
\<close>

subsection \<open>The custom resource (\<^verbatim>\<open>pkg/apis/mysql/v1alpha1/types.go\<close>)\<close>

text \<open>\<^verbatim>\<open>metav1.ObjectMeta\<close>: name, namespace and labels are the fields in use.\<close>

record ObjectMeta =
  Name :: string
  Namespace :: string
  Labels :: "(string \<times> string) list"

record MySQLSpec =
  Version :: string

record MySQLStatus =
  Message :: string

record MySQL =
  MySQL_ObjectMeta :: ObjectMeta
  MySQL_Spec :: MySQLSpec
  MySQL_Status :: MySQLStatus

subsection \<open>Dependent resources (the Kubernetes API structs the handler fills in)\<close>

record Secret =
  Secret_ObjectMeta :: ObjectMeta
  Secret_Type :: string
  StringData :: "(string \<times> string) list"

record ServicePort =
  Port :: "32 word"

record ServiceSpec =
  Ports :: "ServicePort list"
  ClusterIP :: string
  ServiceSpec_Selector :: "(string \<times> string) list"

record Service =
  Service_ObjectMeta :: ObjectMeta
  Service_Spec :: ServiceSpec

record ContainerPort =
  ContainerPort_ContainerPort :: "32 word"

record VolumeMount =
  VolumeMount_Name :: string
  MountPath :: string

record LocalObjectReference =
  LocalObjectReference_Name :: string

record SecretKeySelector =
  SecretKeySelector_LocalObjectReference :: LocalObjectReference
  Key :: string

record EnvVarSource =
  SecretKeyRef :: "SecretKeySelector option"

record EnvVar =
  EnvVar_Name :: string
  EnvVar_Value :: string
  ValueFrom :: "EnvVarSource option"

record Container =
  Container_Name :: string
  Image :: string
  Container_Ports :: "ContainerPort list"
  VolumeMounts :: "VolumeMount list"
  Env :: "EnvVar list"

record PodSpec =
  TerminationGracePeriodSeconds :: "64 word option"
  Containers :: "Container list"

record PodTemplateSpec =
  PodTemplateSpec_ObjectMeta :: ObjectMeta
  PodTemplateSpec_Spec :: PodSpec

text \<open>
  \<^verbatim>\<open>resource.Quantity\<close> of \<^verbatim>\<open>k8s.io/apimachinery/pkg/api/resource\<close> is the struct
  \<^verbatim>\<open>{ i int64Amount; d infDecAmount; s string; Format }\<close>: the amount is held in the
  unexported fields \<^verbatim>\<open>i\<close> (\<^verbatim>\<open>value int64\<close>, \<^verbatim>\<open>scale int32\<close>) and \<^verbatim>\<open>d\<close> (a pointer to
  an arbitrary-precision decimal, nil unless the amount does not fit \<^verbatim>\<open>i\<close>), \<^verbatim>\<open>s\<close> caches
  the printed form, and the embedded \<^verbatim>\<open>Format\<close> is a string naming the notation to
  print in (\<^verbatim>\<open>"BinarySI"\<close>, \<^verbatim>\<open>"DecimalSI"\<close>, \<^verbatim>\<open>"DecimalExponent"\<close>).
\<close>

record int64Amount =
  amount_value :: "64 word"
  amount_scale :: "32 word"

record Quantity =
  Quantity_i :: int64Amount
  Quantity_d :: "(int \<times> 32 word) option"
  Quantity_s :: string
  Format :: string

record ResourceRequirements =
  Limits :: "(string \<times> Quantity) list"
  Requests :: "(string \<times> Quantity) list"

record PersistentVolumeClaimSpec =
  AccessModes :: "string list"
  Resources :: ResourceRequirements

record PersistentVolumeClaim =
  PersistentVolumeClaim_ObjectMeta :: ObjectMeta
  PersistentVolumeClaim_Spec :: PersistentVolumeClaimSpec

record LabelSelector =
  MatchLabels :: "(string \<times> string) list"

record StatefulSetSpec =
  Replicas :: "32 word option"
  StatefulSetSpec_Selector :: "LabelSelector option"
  Template :: PodTemplateSpec
  VolumeClaimTemplates :: "PersistentVolumeClaim list"
  ServiceName :: string

record StatefulSet =
  StatefulSet_ObjectMeta :: ObjectMeta
  StatefulSet_Spec :: StatefulSetSpec

subsection \<open>Package constants (\<^verbatim>\<open>controller.go\<close>, lines 20 to 34)\<close>

definition matchLabelKey :: string where "matchLabelKey = ''app''"
definition matchLabelVal :: string where "matchLabelVal = ''mysql''"
definition serviceName :: string where "serviceName = ''mysql''"
definition replicas :: "32 word" where "replicas = 1"
definition terminationGracePeriodSeconds :: "64 word" where "terminationGracePeriodSeconds = 10"
definition containerName :: string where "containerName = ''mysql''"
definition imagePrefix :: string where "imagePrefix = ''arm64v8/mysql:''"
definition volumeMountName :: string where "volumeMountName = ''mysql-store''"
definition volumeMoutPath :: string where "volumeMoutPath = ''/var/lib/mysql''"
definition envName :: string where "envName = ''MYSQL_ROOT_PASSWORD''"
definition secretName :: string where "secretName = ''mysql-password''"
definition passwd :: string where "passwd = ''bytedance''"
definition port :: "32 word" where "port = 3306"

text \<open>The three constants of \<^verbatim>\<open>k8s.io/api/core/v1\<close> the handler names.\<close>

definition SecretTypeOpaque :: string where "SecretTypeOpaque = ''Opaque''"
definition ReadWriteOnce :: string where "ReadWriteOnce = ''ReadWriteOnce''"
definition ResourceStorage :: string where "ResourceStorage = ''storage''"

subsection \<open>The resource literals built by \<^verbatim>\<open>add\<close>\<close>

text \<open>Lines 93 to 101.\<close>

definition secret :: Secret where
  "secret =
     \<lparr>Secret_ObjectMeta = \<lparr>Name = secretName, Namespace = [], Labels = []\<rparr>,
      Secret_Type = SecretTypeOpaque,
      StringData = [(envName, passwd)]\<rparr>"

text \<open>Lines 114 to 132.\<close>

definition service :: Service where
  "service =
     \<lparr>Service_ObjectMeta =
        \<lparr>Name = serviceName, Namespace = [], Labels = [(matchLabelKey, matchLabelVal)]\<rparr>,
      Service_Spec =
        \<lparr>Ports = [\<lparr>Port = port\<rparr>],
         ClusterIP = ''None'',
         ServiceSpec_Selector = [(matchLabelKey, matchLabelVal)]\<rparr>\<rparr>"

text \<open>Lines 146 to 185; \<^verbatim>\<open>ret\<close> is the handler's copy of the resource.\<close>

definition podTemplate :: "MySQL \<Rightarrow> PodTemplateSpec" where
  "podTemplate ret =
     \<lparr>PodTemplateSpec_ObjectMeta =
        \<lparr>Name = [], Namespace = [], Labels = [(matchLabelKey, matchLabelVal)]\<rparr>,
      PodTemplateSpec_Spec =
        \<lparr>TerminationGracePeriodSeconds = Some terminationGracePeriodSeconds,
         Containers =
           [\<lparr>Container_Name = containerName,
             Image = imagePrefix @ Version (MySQL_Spec ret),
             Container_Ports = [\<lparr>ContainerPort_ContainerPort = port\<rparr>],
             VolumeMounts = [\<lparr>VolumeMount_Name = volumeMountName, MountPath = volumeMoutPath\<rparr>],
             Env =
               [\<lparr>EnvVar_Name = envName,
                 EnvVar_Value = [],
                 ValueFrom =
                   Some \<lparr>SecretKeyRef =
                     Some \<lparr>SecretKeySelector_LocalObjectReference =
                             \<lparr>LocalObjectReference_Name = secretName\<rparr>,
                           Key = envName\<rparr>\<rparr>\<rparr>]\<rparr>]\<rparr>\<rparr>"

text \<open>
  Lines 187 to 210.  Each quantity is the composite literal
  \<^verbatim>\<open>{Format: "1Gi"}\<close> (\<^verbatim>\<open>{Format: "2Gi"}\<close>): it names the field \<^verbatim>\<open>Format\<close> alone, so
  the amount fields keep their zero values.
\<close>

definition vcTemplate :: "PersistentVolumeClaim list" where
  "vcTemplate =
     [\<lparr>PersistentVolumeClaim_ObjectMeta =
         \<lparr>Name = volumeMountName, Namespace = [], Labels = []\<rparr>,
       PersistentVolumeClaim_Spec =
         \<lparr>AccessModes = [ReadWriteOnce],
          Resources =
            \<lparr>Limits =
               [(ResourceStorage,
                 \<lparr>Quantity_i = \<lparr>amount_value = 0, amount_scale = 0\<rparr>,
                  Quantity_d = None, Quantity_s = [], Format = ''2Gi''\<rparr>)],
             Requests =
               [(ResourceStorage,
                 \<lparr>Quantity_i = \<lparr>amount_value = 0, amount_scale = 0\<rparr>,
                  Quantity_d = None, Quantity_s = [], Format = ''1Gi''\<rparr>)]\<rparr>\<rparr>\<rparr>]"

text \<open>Lines 212 to 228.\<close>

definition sts :: "MySQL \<Rightarrow> StatefulSet" where
  "sts ret =
     \<lparr>StatefulSet_ObjectMeta =
        \<lparr>Name = Name (MySQL_ObjectMeta ret) @ ''-deployment'',
         Namespace = Namespace (MySQL_ObjectMeta ret),
         Labels = []\<rparr>,
      StatefulSet_Spec =
        \<lparr>Replicas = Some replicas,
         StatefulSetSpec_Selector = Some \<lparr>MatchLabels = [(matchLabelKey, matchLabelVal)]\<rparr>,
         Template = podTemplate ret,
         VolumeClaimTemplates = vcTemplate,
         ServiceName = serviceName\<rparr>\<rparr>"

section \<open>Clients, calls and the trace\<close>

text \<open>
  A call names the client method, the namespace it is scoped to and its argument (the
  object for a create or a status update, the name for a delete).
\<close>

datatype call =
    UpdateStatus string MySQL
  | SecretsCreate string Secret
  | ServicesCreate string Service
  | StatefulSetsCreate string StatefulSet
  | MySQLsDelete string string
  | SecretsDelete string string
  | ServicesDelete string string
  | StatefulSetsDelete string string

text \<open>
  A Go \<^verbatim>\<open>error\<close> is \<open>None\<close> for nil and \<open>Some\<close> of its text otherwise.  A client
  answers a call with an error value and changes the store; the handlers drop every other
  return value.  Nothing is assumed about how a client decides.
\<close>

type_synonym error = string

type_synonym 's client = "call \<Rightarrow> 's \<Rightarrow> error option \<times> 's"

record 's Controller =
  k8sClient :: "'s client"
  crClient :: "'s client"

text \<open>
  The dynamic value of the \<^verbatim>\<open>interface{}\<close> a handler receives: a \<^verbatim>\<open>*MySQL\<close>, which may
  be the nil pointer, or a value of another type (kept as its printed form).
\<close>

datatype obj = MySQLPtr "MySQL option" | OtherObj string

datatype logentry =
    InfoS string "(string \<times> string) list"
  | ErrorS "error option" string "(string \<times> string) list"
  | Errorf string obj

record 's world =
  store :: 's
  trace :: "(call \<times> error option) list"
  logs :: "logentry list"

text \<open>A handler returns, or panics on dereferencing a nil \<^verbatim>\<open>*MySQL\<close>.\<close>

datatype 'w exit = Return 'w | Panic 'w

fun world_of :: "'w exit \<Rightarrow> 'w" where
  "world_of (Return w) = w"
| "world_of (Panic w) = w"

fun returned :: "'w exit \<Rightarrow> bool" where
  "returned (Return w) = True"
| "returned (Panic w) = False"

definition init :: "'s \<Rightarrow> 's world" where
  "init s = \<lparr>store = s, trace = [], logs = []\<rparr>"

definition klog :: "logentry \<Rightarrow> 's world \<Rightarrow> 's world" where
  "klog l w = w\<lparr>logs := logs w @ [l]\<rparr>"

definition invoke :: "'s client \<Rightarrow> call \<Rightarrow> 's world \<Rightarrow> error option \<times> 's world" where
  "invoke cl c w =
     (case cl c (store w) of
        (err, s') \<Rightarrow> (err, w\<lparr>store := s', trace := trace w @ [(c, err)]\<rparr>))"

section \<open>The handlers\<close>

text \<open>\<^verbatim>\<open>Controller.add\<close>, lines 74 to 240.\<close>

definition add :: "'s Controller \<Rightarrow> obj \<Rightarrow> 's \<Rightarrow> 's world exit" where
  "add c obj s =
    (let w = klog (InfoS ''Receive ADD Event.'' []) (init s) in
     case obj of
       OtherObj v \<Rightarrow> Return (klog (Errorf ''Failed to type assert object: %v'' obj) w)
     | MySQLPtr None \<Rightarrow> Panic w
     | MySQLPtr (Some mysqlObj) \<Rightarrow>
        (let ns = Namespace (MySQL_ObjectMeta mysqlObj);
             name = Name (MySQL_ObjectMeta mysqlObj);
             version = Version (MySQL_Spec mysqlObj);
             w = klog (InfoS ''obj'' [(''namespace'', ns), (''name'', name), (''version'', version)]) w;
             ret = mysqlObj\<lparr>MySQL_Status := (MySQL_Status mysqlObj)\<lparr>Message := ''Received In ADD''\<rparr>\<rparr>;
             (err, w) = invoke (crClient c) (UpdateStatus ns ret) w
         in if err \<noteq> None then
              Return (klog (ErrorS err ''Failed to update status'' [(''namespace'', ns), (''name'', name)]) w)
            else
         let w = klog (InfoS ''Update Status.'' [(''namespace'', ns), (''name'', name), (''version'', version)]) w;
             (err, w) = invoke (k8sClient c) (SecretsCreate ns secret) w
         in if err \<noteq> None then
              (let ret = ret\<lparr>MySQL_Status := (MySQL_Status ret)\<lparr>Message := ''Failed''\<rparr>\<rparr>;
                   (err, w) = invoke (crClient c) (UpdateStatus ns ret) w
               in if err \<noteq> None then
                    Return (klog (ErrorS err ''Failed to update status'' [(''namespace'', ns), (''name'', name)]) w)
                  else
                    Return (klog (ErrorS err ''Failed to create secret'' [(''namespace'', ns), (''name'', secretName)]) w))
            else
         let (err, w) = invoke (k8sClient c) (ServicesCreate ns service) w
         in if err \<noteq> None then
              (let ret = ret\<lparr>MySQL_Status := (MySQL_Status ret)\<lparr>Message := ''Failed''\<rparr>\<rparr>;
                   (err, w) = invoke (crClient c) (UpdateStatus ns ret) w
               in if err \<noteq> None then
                    Return (klog (ErrorS err ''Failed to update status'' [(''namespace'', ns), (''name'', name)]) w)
                  else
               let (_, w) = invoke (k8sClient c) (SecretsDelete ns secretName) w
               in Return (klog (ErrorS err ''Failed to create service'' [(''namespace'', ns), (''name'', name)]) w))
            else
         let (err, w) = invoke (k8sClient c) (StatefulSetsCreate ns (sts ret)) w
         in if err \<noteq> None then
              (let ret = ret\<lparr>MySQL_Status := (MySQL_Status ret)\<lparr>Message := ''Failed''\<rparr>\<rparr>;
                   (err, w) = invoke (crClient c) (UpdateStatus ns ret) w
               in if err \<noteq> None then
                    Return (klog (ErrorS err ''Failed to update status'' [(''namespace'', ns), (''name'', name)]) w)
                  else
               let (_, w) = invoke (k8sClient c) (SecretsDelete ns secretName) w;
                   (_, w) = invoke (k8sClient c) (ServicesDelete ns serviceName) w
               in Return w)
            else Return w))"

text \<open>\<^verbatim>\<open>Controller.update\<close>, lines 242 to 258.\<close>

definition update :: "'s Controller \<Rightarrow> obj \<Rightarrow> obj \<Rightarrow> 's \<Rightarrow> 's world exit" where
  "update c old new s =
    (let w = klog (InfoS ''Receive UPDATE Event.'' []) (init s) in
     case old of
       OtherObj v \<Rightarrow> Return (klog (Errorf ''Failed to type assert old: %v'' (MySQLPtr None)) w)
     | MySQLPtr None \<Rightarrow> Panic w
     | MySQLPtr (Some oldObj) \<Rightarrow>
        (let w = klog (InfoS ''old'' [(''namespace'', Namespace (MySQL_ObjectMeta oldObj)),
                                       (''name'', Name (MySQL_ObjectMeta oldObj)),
                                       (''version'', Version (MySQL_Spec oldObj))]) w
         in case new of
              OtherObj v \<Rightarrow> Return (klog (Errorf ''Failed to type assert new: %v'' (MySQLPtr None)) w)
            | MySQLPtr None \<Rightarrow> Panic w
            | MySQLPtr (Some newObj) \<Rightarrow>
                Return (klog (InfoS ''new'' [(''namespace'', Namespace (MySQL_ObjectMeta newObj)),
                                              (''name'', Name (MySQL_ObjectMeta newObj)),
                                              (''version'', Version (MySQL_Spec newObj))]) w)))"

text \<open>\<^verbatim>\<open>Controller.delete\<close>, lines 260 to 274.\<close>

definition delete :: "'s Controller \<Rightarrow> obj \<Rightarrow> 's \<Rightarrow> 's world exit" where
  "delete c obj s =
    (let w = klog (InfoS ''Receive DELETE Event.'' []) (init s) in
     case obj of
       OtherObj v \<Rightarrow> Return (klog (Errorf ''Failed to type assert object: %v'' obj) w)
     | MySQLPtr None \<Rightarrow> Panic w
     | MySQLPtr (Some mysqlObj) \<Rightarrow>
        (let ns = Namespace (MySQL_ObjectMeta mysqlObj);
             name = Name (MySQL_ObjectMeta mysqlObj);
             w = klog (InfoS ''obj'' [(''namespace'', ns), (''name'', name),
                                      (''version'', Version (MySQL_Spec mysqlObj))]) w;
             (_, w) = invoke (crClient c) (MySQLsDelete ns name) w;
             (_, w) = invoke (k8sClient c) (SecretsDelete ns secretName) w;
             (_, w) = invoke (k8sClient c) (ServicesDelete ns serviceName) w;
             (_, w) = invoke (k8sClient c) (StatefulSetsDelete ns (name @ ''-deployment'')) w
         in Return w))"


section \<open>Observing a run\<close>

text \<open>
  Shorthands for the values the handlers compute from the resource: the copy \<^verbatim>\<open>ret\<close> with
  its status message assigned, the namespace and name, the status call, and the key/value
  pairs and entries the handlers log.
\<close>

definition withMessage :: "string \<Rightarrow> MySQL \<Rightarrow> MySQL" where
  "withMessage m cr = cr\<lparr>MySQL_Status := (MySQL_Status cr)\<lparr>Message := m\<rparr>\<rparr>"

definition nsOf :: "MySQL \<Rightarrow> string" where
  "nsOf cr = Namespace (MySQL_ObjectMeta cr)"

definition nameOf :: "MySQL \<Rightarrow> string" where
  "nameOf cr = Name (MySQL_ObjectMeta cr)"

definition statusCall :: "string \<Rightarrow> MySQL \<Rightarrow> call" where
  "statusCall m cr = UpdateStatus (nsOf cr) (withMessage m cr)"

definition kv :: "MySQL \<Rightarrow> (string \<times> string) list" where
  "kv cr = [(''namespace'', nsOf cr), (''name'', nameOf cr)]"

definition kvv :: "MySQL \<Rightarrow> (string \<times> string) list" where
  "kvv cr = [(''namespace'', nsOf cr), (''name'', nameOf cr), (''version'', Version (MySQL_Spec cr))]"

definition received_logs :: "MySQL \<Rightarrow> logentry list" where
  "received_logs cr = [InfoS ''Receive ADD Event.'' [], InfoS ''obj'' (kvv cr)]"

definition persisted_logs :: "MySQL \<Rightarrow> logentry list" where
  "persisted_logs cr = received_logs cr @ [InfoS ''Update Status.'' (kvv cr)]"

text \<open>
  What the external store observes of a run is the list of calls, in the order issued;
  the trace also keeps the error each call was answered with, which splits the calls into
  those that succeeded and those that failed.
\<close>

fun is_create :: "call \<Rightarrow> bool" where
  "is_create (SecretsCreate ns x) = True"
| "is_create (ServicesCreate ns x) = True"
| "is_create (StatefulSetsCreate ns x) = True"
| "is_create c = False"

fun is_delete :: "call \<Rightarrow> bool" where
  "is_delete (MySQLsDelete ns n) = True"
| "is_delete (SecretsDelete ns n) = True"
| "is_delete (ServicesDelete ns n) = True"
| "is_delete (StatefulSetsDelete ns n) = True"
| "is_delete c = False"

fun is_status :: "call \<Rightarrow> bool" where
  "is_status (UpdateStatus ns x) = True"
| "is_status c = False"

fun is_SecretsCreate :: "call \<Rightarrow> bool" where
  "is_SecretsCreate (SecretsCreate ns x) = True"
| "is_SecretsCreate c = False"

fun is_ServicesCreate :: "call \<Rightarrow> bool" where
  "is_ServicesCreate (ServicesCreate ns x) = True"
| "is_ServicesCreate c = False"

fun is_StatefulSetsCreate :: "call \<Rightarrow> bool" where
  "is_StatefulSetsCreate (StatefulSetsCreate ns x) = True"
| "is_StatefulSetsCreate c = False"

definition calls :: "'s world \<Rightarrow> call list" where
  "calls w = map fst (trace w)"

definition creates :: "'s world \<Rightarrow> call list" where
  "creates w = filter is_create (calls w)"

definition deletes :: "'s world \<Rightarrow> call list" where
  "deletes w = filter is_delete (calls w)"

definition status_updates :: "'s world \<Rightarrow> call list" where
  "status_updates w = filter is_status (calls w)"

definition failed :: "(call \<times> error option) list \<Rightarrow> call list" where
  "failed t = map fst (filter (\<lambda>p. snd p \<noteq> None) t)"

definition succeeded :: "(call \<times> error option) list \<Rightarrow> call list" where
  "succeeded t = map fst (filter (\<lambda>p. snd p = None) t)"

fun messages :: "call list \<Rightarrow> string list" where
  "messages [] = []"
| "messages (UpdateStatus ns x # cs) = Message (MySQL_Status x) # messages cs"
| "messages (c # cs) = messages cs"

definition persisted :: "'s world \<Rightarrow> string list" where
  "persisted w = messages (succeeded (trace w))"

definition rejected :: "'s world \<Rightarrow> string list" where
  "rejected w = messages (failed (trace w))"

fun created_secrets :: "call list \<Rightarrow> Secret list" where
  "created_secrets [] = []"
| "created_secrets (SecretsCreate ns x # cs) = x # created_secrets cs"
| "created_secrets (c # cs) = created_secrets cs"

fun precedes :: "'a \<Rightarrow> 'a \<Rightarrow> 'a list \<Rightarrow> bool" where
  "precedes a b [] = False"
| "precedes a b (x # xs) = ((x = a \<and> b \<in> set xs) \<or> precedes a b xs)"

abbreviation run_add :: "'s Controller \<Rightarrow> MySQL \<Rightarrow> 's \<Rightarrow> 's world" where
  "run_add c cr s \<equiv> world_of (add c (MySQLPtr (Some cr)) s)"

section \<open>Test fixtures\<close>

text \<open>
  The resource of the end-to-end scenario, and clients over a store that records every
  call it receives and fails the calls a predicate selects.
\<close>

definition db1 :: MySQL where
  "db1 = \<lparr>MySQL_ObjectMeta = \<lparr>Name = ''db1'', Namespace = ''default'', Labels = []\<rparr>,
          MySQL_Spec = \<lparr>Version = ''8.0''\<rparr>,
          MySQL_Status = \<lparr>Message = []\<rparr>\<rparr>"

definition recording :: "(call \<Rightarrow> bool) \<Rightarrow> call list client" where
  "recording fails c s = (if fails c then Some ''injected failure'' else None, s @ [c])"

definition reliable :: "call list Controller" where
  "reliable = \<lparr>k8sClient = recording (\<lambda>c. False), crClient = recording (\<lambda>c. False)\<rparr>"

definition stsFails :: "call list Controller" where
  "stsFails = \<lparr>k8sClient = recording is_StatefulSetsCreate, crClient = recording (\<lambda>c. False)\<rparr>"

definition serviceFails :: "call list Controller" where
  "serviceFails = \<lparr>k8sClient = recording is_ServicesCreate, crClient = recording (\<lambda>c. False)\<rparr>"

definition serviceAndStatusFail :: "call list Controller" where
  "serviceAndStatusFail =
     \<lparr>k8sClient = recording is_ServicesCreate,
      crClient = recording (\<lambda>c. messages [c] = [''Failed''])\<rparr>"

definition statusFails :: "call list Controller" where
  "statusFails = \<lparr>k8sClient = recording (\<lambda>c. False), crClient = recording is_status\<rparr>"

definition db2 :: MySQL where
  "db2 = \<lparr>MySQL_ObjectMeta = \<lparr>Name = ''orders'', Namespace = ''prod'', Labels = [(''team'', ''a'')]\<rparr>,
          MySQL_Spec = \<lparr>Version = ''5.7''\<rparr>,
          MySQL_Status = \<lparr>Message = ''Received In ADD''\<rparr>\<rparr>"

section \<open>The paths through \<^verbatim>\<open>add\<close>\<close>

lemmas add_unfold =
  add_def invoke_def klog_def init_def Let_def withMessage_def nsOf_def nameOf_def statusCall_def
  kv_def kvv_def received_logs_def persisted_logs_def

lemmas observers =
  calls_def creates_def deletes_def status_updates_def persisted_def rejected_def
  failed_def succeeded_def
  statusCall_def withMessage_def

text \<open>
  For a non-nil \<^verbatim>\<open>*MySQL\<close> the handler returns along one of eight paths, told apart by
  the answers of the clients.  Each case gives the whole result: the store, the trace and
  the log.
\<close>

lemma add_cases:
  fixes c :: "'s Controller" and cr :: MySQL and s :: 's
  obtains
    (persist_failed) e s' where
      "add c (MySQLPtr (Some cr)) s =
         Return \<lparr>store = s',
                 trace = [(statusCall ''Received In ADD'' cr, Some e)],
                 logs = received_logs cr @ [ErrorS (Some e) ''Failed to update status'' (kv cr)]\<rparr>"
  | (secret_failed_persist_failed) e e' s' where
      "add c (MySQLPtr (Some cr)) s =
         Return \<lparr>store = s',
                 trace = [(statusCall ''Received In ADD'' cr, None),
                          (SecretsCreate (nsOf cr) secret, Some e),
                          (statusCall ''Failed'' cr, Some e')],
                 logs = persisted_logs cr @ [ErrorS (Some e') ''Failed to update status'' (kv cr)]\<rparr>"
  | (secret_failed) e s' where
      "add c (MySQLPtr (Some cr)) s =
         Return \<lparr>store = s',
                 trace = [(statusCall ''Received In ADD'' cr, None),
                          (SecretsCreate (nsOf cr) secret, Some e),
                          (statusCall ''Failed'' cr, None)],
                 logs = persisted_logs cr @
               [ErrorS None ''Failed to create secret''
                  [(''namespace'', nsOf cr), (''name'', secretName)]]\<rparr>"
  | (service_failed_persist_failed) e e' s' where
      "add c (MySQLPtr (Some cr)) s =
         Return \<lparr>store = s',
                 trace = [(statusCall ''Received In ADD'' cr, None),
                          (SecretsCreate (nsOf cr) secret, None),
                          (ServicesCreate (nsOf cr) service, Some e),
                          (statusCall ''Failed'' cr, Some e')],
                 logs = persisted_logs cr @ [ErrorS (Some e') ''Failed to update status'' (kv cr)]\<rparr>"
  | (service_failed) e d s' where
      "add c (MySQLPtr (Some cr)) s =
         Return \<lparr>store = s',
                 trace = [(statusCall ''Received In ADD'' cr, None),
                          (SecretsCreate (nsOf cr) secret, None),
                          (ServicesCreate (nsOf cr) service, Some e),
                          (statusCall ''Failed'' cr, None),
                          (SecretsDelete (nsOf cr) secretName, d)],
                 logs = persisted_logs cr @ [ErrorS None ''Failed to create service'' (kv cr)]\<rparr>"
  | (sts_failed_persist_failed) e e' s' where
      "add c (MySQLPtr (Some cr)) s =
         Return \<lparr>store = s',
                 trace = [(statusCall ''Received In ADD'' cr, None),
                          (SecretsCreate (nsOf cr) secret, None),
                          (ServicesCreate (nsOf cr) service, None),
                          (StatefulSetsCreate (nsOf cr) (sts (withMessage ''Received In ADD'' cr)), Some e),
                          (statusCall ''Failed'' cr, Some e')],
                 logs = persisted_logs cr @ [ErrorS (Some e') ''Failed to update status'' (kv cr)]\<rparr>"
  | (sts_failed) e d d' s' where
      "add c (MySQLPtr (Some cr)) s =
         Return \<lparr>store = s',
                 trace = [(statusCall ''Received In ADD'' cr, None),
                          (SecretsCreate (nsOf cr) secret, None),
                          (ServicesCreate (nsOf cr) service, None),
                          (StatefulSetsCreate (nsOf cr) (sts (withMessage ''Received In ADD'' cr)), Some e),
                          (statusCall ''Failed'' cr, None),
                          (SecretsDelete (nsOf cr) secretName, d),
                          (ServicesDelete (nsOf cr) serviceName, d')],
                 logs = persisted_logs cr\<rparr>"
  | (success) s' where
      "add c (MySQLPtr (Some cr)) s =
         Return \<lparr>store = s',
                 trace = [(statusCall ''Received In ADD'' cr, None),
                          (SecretsCreate (nsOf cr) secret, None),
                          (ServicesCreate (nsOf cr) service, None),
                          (StatefulSetsCreate (nsOf cr) (sts (withMessage ''Received In ADD'' cr)), None)],
                 logs = persisted_logs cr\<rparr>"
proof -
  obtain e1 s1 where r1: "crClient c (statusCall ''Received In ADD'' cr) s = (e1, s1)"
    by (cases "crClient c (statusCall ''Received In ADD'' cr) s")
  obtain e2 s2 where r2: "k8sClient c (SecretsCreate (nsOf cr) secret) s1 = (e2, s2)"
    by (cases "k8sClient c (SecretsCreate (nsOf cr) secret) s1")
  obtain e3 s3 where r3: "k8sClient c (ServicesCreate (nsOf cr) service) s2 = (e3, s3)"
    by (cases "k8sClient c (ServicesCreate (nsOf cr) service) s2")
  obtain e4 s4 where r4:
    "k8sClient c (StatefulSetsCreate (nsOf cr) (sts (withMessage ''Received In ADD'' cr))) s3 = (e4, s4)"
    by (cases "k8sClient c (StatefulSetsCreate (nsOf cr) (sts (withMessage ''Received In ADD'' cr))) s3")
  note rs = r1 r2 r3 r4
  show thesis
  proof (cases e1)
    case (Some e)
    with r1 show thesis
      by - (rule persist_failed, simp add: add_unfold)
  next
    case n1: None
    show thesis
    proof (cases e2)
      case e2: (Some e)
      obtain f t where rf: "crClient c (statusCall ''Failed'' cr) s2 = (f, t)"
        by (cases "crClient c (statusCall ''Failed'' cr) s2")
      show thesis
      proof (cases f)
        case None
        with rs n1 e2 rf show thesis
          by - (rule secret_failed, simp add: add_unfold)
      next
        case (Some e')
        with rs n1 e2 rf show thesis
          by - (rule secret_failed_persist_failed, simp add: add_unfold)
      qed
    next
      case n2: None
      show thesis
      proof (cases e3)
        case e3: (Some e)
        obtain f t where rf: "crClient c (statusCall ''Failed'' cr) s3 = (f, t)"
          by (cases "crClient c (statusCall ''Failed'' cr) s3")
        obtain d u where rd: "k8sClient c (SecretsDelete (nsOf cr) secretName) t = (d, u)"
          by (cases "k8sClient c (SecretsDelete (nsOf cr) secretName) t")
        show thesis
        proof (cases f)
          case None
          with rs n1 n2 e3 rf rd show thesis
            by - (rule service_failed, simp add: add_unfold)
        next
          case (Some e')
          with rs n1 n2 e3 rf show thesis
            by - (rule service_failed_persist_failed, simp add: add_unfold)
        qed
      next
        case n3: None
        show thesis
        proof (cases e4)
          case e4: (Some e)
          obtain f t where rf: "crClient c (statusCall ''Failed'' cr) s4 = (f, t)"
            by (cases "crClient c (statusCall ''Failed'' cr) s4")
          obtain d u where rd: "k8sClient c (SecretsDelete (nsOf cr) secretName) t = (d, u)"
            by (cases "k8sClient c (SecretsDelete (nsOf cr) secretName) t")
          obtain d' u' where rd': "k8sClient c (ServicesDelete (nsOf cr) serviceName) u = (d', u')"
            by (cases "k8sClient c (ServicesDelete (nsOf cr) serviceName) u")
          show thesis
          proof (cases f)
            case None
            with rs n1 n2 n3 e4 rf rd rd' show thesis
              by - (rule sts_failed, simp add: add_unfold)
          next
            case (Some e')
            with rs n1 n2 n3 e4 rf show thesis
              by - (rule sts_failed_persist_failed, simp add: add_unfold)
          qed
        next
          case None
          with rs n1 n2 n3 show thesis
            by - (rule success, simp add: add_unfold)
        qed
      qed
    qed
  qed
qed

text \<open>The runs of the fixtures on \<open>db1\<close>.\<close>

lemmas fixtures =
  db1_def db2_def recording_def reliable_def stsFails_def serviceFails_def serviceAndStatusFail_def
  statusFails_def

lemma stsFails_trace:
  "trace (run_add stsFails db1 []) =
     [(statusCall ''Received In ADD'' db1, None),
      (SecretsCreate ''default'' secret, None),
      (ServicesCreate ''default'' service, None),
      (StatefulSetsCreate ''default'' (sts (withMessage ''Received In ADD'' db1)), Some ''injected failure''),
      (statusCall ''Failed'' db1, None),
      (SecretsDelete ''default'' ''mysql-password'', None),
      (ServicesDelete ''default'' ''mysql'', None)]"
  by (simp add: add_unfold fixtures secretName_def serviceName_def)

lemma serviceFails_trace:
  "trace (run_add serviceFails db1 []) =
     [(statusCall ''Received In ADD'' db1, None),
      (SecretsCreate ''default'' secret, None),
      (ServicesCreate ''default'' service, Some ''injected failure''),
      (statusCall ''Failed'' db1, None),
      (SecretsDelete ''default'' ''mysql-password'', None)]"
  by (simp add: add_unfold fixtures secretName_def serviceName_def)

lemma serviceAndStatusFail_trace:
  "trace (run_add serviceAndStatusFail db1 []) =
     [(statusCall ''Received In ADD'' db1, None),
      (SecretsCreate ''default'' secret, None),
      (ServicesCreate ''default'' service, Some ''injected failure''),
      (statusCall ''Failed'' db1, Some ''injected failure'')]"
  by (simp add: add_unfold fixtures secretName_def serviceName_def)

lemma statusFails_trace:
  "trace (run_add statusFails db1 []) =
     [(statusCall ''Received In ADD'' db1, Some ''injected failure'')]"
  by (simp add: add_unfold fixtures secretName_def serviceName_def)

lemma reliable_trace:
  "trace (run_add reliable db1 []) =
     [(statusCall ''Received In ADD'' db1, None),
      (SecretsCreate ''default'' secret, None),
      (ServicesCreate ''default'' service, None),
      (StatefulSetsCreate ''default'' (sts (withMessage ''Received In ADD'' db1)), None)]"
  by (simp add: add_unfold fixtures secretName_def serviceName_def)


lemma stsFails_db2_trace:
  "trace (run_add stsFails db2 []) =
     [(statusCall ''Received In ADD'' db2, None),
      (SecretsCreate ''prod'' secret, None),
      (ServicesCreate ''prod'' service, None),
      (StatefulSetsCreate ''prod'' (sts (withMessage ''Received In ADD'' db2)), Some ''injected failure''),
      (statusCall ''Failed'' db2, None),
      (SecretsDelete ''prod'' ''mysql-password'', None),
      (ServicesDelete ''prod'' ''mysql'', None)]"
  by (simp add: add_unfold fixtures secretName_def serviceName_def)

lemmas concrete = nsOf_def nameOf_def db1_def secretName_def serviceName_def

lemmas literals =
  secret_def service_def sts_def podTemplate_def vcTemplate_def
  matchLabelKey_def matchLabelVal_def serviceName_def replicas_def
  terminationGracePeriodSeconds_def containerName_def imagePrefix_def volumeMountName_def
  volumeMoutPath_def envName_def secretName_def passwd_def port_def
  SecretTypeOpaque_def ReadWriteOnce_def ResourceStorage_def


section \<open>Provisioning on ADD\<close>

text \<open>
  C1, as the handler behaves.  When the Stateful Workload create call fails and the
  persist of the status \<^verbatim>\<open>"Failed"\<close> succeeds, the handler issues exactly two delete
  calls: first the Credential Store (line 237), then the Network Service (line 238).
\<close>

theorem add_sts_failure_compensation:
  assumes "list_ex is_StatefulSetsCreate (failed (trace (run_add c cr s)))"
    and "''Failed'' \<in> set (persisted (run_add c cr s))"
  shows "deletes (run_add c cr s) =
           [SecretsDelete (nsOf cr) secretName, ServicesDelete (nsOf cr) serviceName]"
  using assms
  by (cases rule: add_cases [of c cr s]) (simp_all add: observers split: if_splits)

text \<open>C1, witness: the workload create fails for \<open>db1\<close> and every other call succeeds.\<close>

theorem add_sts_failure_compensation_witness:
  "list_ex is_StatefulSetsCreate (failed (trace (run_add stsFails db1 []))) \<and>
   ''Failed'' \<in> set (persisted (run_add stsFails db1 [])) \<and>
   deletes (run_add stsFails db1 []) =
     [SecretsDelete ''default'' ''mysql-password'', ServicesDelete ''default'' ''mysql'']"
proof -
  have h1: "list_ex is_StatefulSetsCreate (failed (trace (run_add stsFails db1 [])))"
    by (simp add: stsFails_trace observers)
  have h2: "''Failed'' \<in> set (persisted (run_add stsFails db1 []))"
    by (simp add: stsFails_trace observers)
  from add_sts_failure_compensation [OF h1 h2] h1 h2 show ?thesis
    by (simp add: concrete)
qed

text \<open>
  C1, as stated, asks for the Network Service delete before the Credential Store delete.
  On the same run the service delete does not precede the secret delete.
\<close>

theorem sts_failure_service_before_secret_counterexample:
  "\<not> (list_ex is_StatefulSetsCreate (failed (trace (run_add stsFails db1 []))) \<and>
      ''Failed'' \<in> set (persisted (run_add stsFails db1 []))
      \<longrightarrow> precedes (ServicesDelete ''default'' ''mysql'')
            (SecretsDelete ''default'' ''mysql-password'') (calls (run_add stsFails db1 [])))"
  by (simp add: stsFails_trace observers)

text \<open>
  C2, as the handler behaves.  In an ADD sequence where one create succeeded and a later
  create failed, the handler returns, and the persist of \<^verbatim>\<open>"Failed"\<close> it attempts either
  succeeds or fails.  When it succeeds the handler issues the compensating delete calls
  and no other delete: the Credential Store alone when the Network Service create failed
  (line 141), the Credential Store and then the Network Service when the Stateful
  Workload create failed (lines 237 and 238).  When it fails no delete call is issued:
  the last thing the handler does is to log the error under
  \<^verbatim>\<open>"Failed to update status"\<close> (lines 137 to 140 and 233 to 236).
\<close>

theorem rollback_requires_persisted_failure:
  assumes "list_ex is_create (succeeded (trace (run_add c cr s)))"
    and "list_ex is_create (failed (trace (run_add c cr s)))"
  shows "returned (add c (MySQLPtr (Some cr)) s) \<and>
     deletes (run_add c cr s) =
       (if ''Failed'' \<in> set (rejected (run_add c cr s)) then []
        else if list_ex is_ServicesCreate (failed (trace (run_add c cr s)))
        then [SecretsDelete (nsOf cr) secretName]
        else [SecretsDelete (nsOf cr) secretName, ServicesDelete (nsOf cr) serviceName]) \<and>
     (''Failed'' \<in> set (persisted (run_add c cr s))) =
       (''Failed'' \<notin> set (rejected (run_add c cr s))) \<and>
     (deletes (run_add c cr s) \<noteq> []) = (''Failed'' \<in> set (persisted (run_add c cr s))) \<and>
     (deletes (run_add c cr s) = []) = (''Failed'' \<in> set (rejected (run_add c cr s))) \<and>
     (''Failed'' \<in> set (rejected (run_add c cr s)) \<longrightarrow>
        (\<exists>e. last (logs (run_add c cr s)) = ErrorS (Some e) ''Failed to update status'' (kv cr)))"
  using assms
  by (cases rule: add_cases [of c cr s]) (simp_all add: observers split: if_splits)

text \<open>
  C2, witness: the service create fails for \<open>db1\<close> after the secret was created, and the
  persist of \<^verbatim>\<open>"Failed"\<close> fails too.
\<close>

theorem rollback_requires_persisted_failure_witness:
  "list_ex is_create (succeeded (trace (run_add serviceAndStatusFail db1 []))) \<and>
   list_ex is_create (failed (trace (run_add serviceAndStatusFail db1 []))) \<and>
   ''Failed'' \<in> set (rejected (run_add serviceAndStatusFail db1 [])) \<and>
   deletes (run_add serviceAndStatusFail db1 []) = [] \<and>
   last (logs (run_add serviceAndStatusFail db1 [])) =
     ErrorS (Some ''injected failure'') ''Failed to update status''
       [(''namespace'', ''default''), (''name'', ''db1'')]"
proof -
  have h1: "list_ex is_create (succeeded (trace (run_add serviceAndStatusFail db1 [])))"
    by (simp add: serviceAndStatusFail_trace observers)
  have h2: "list_ex is_create (failed (trace (run_add serviceAndStatusFail db1 [])))"
    by (simp add: serviceAndStatusFail_trace observers)
  have h3: "''Failed'' \<in> set (rejected (run_add serviceAndStatusFail db1 []))"
    by (simp add: serviceAndStatusFail_trace observers)
  have l: "last (logs (run_add serviceAndStatusFail db1 [])) =
     ErrorS (Some ''injected failure'') ''Failed to update status''
       [(''namespace'', ''default''), (''name'', ''db1'')]"
    by (simp add: add_unfold fixtures)
  from rollback_requires_persisted_failure [OF h1 h2] h1 h2 h3 l show ?thesis
    by simp
qed

text \<open>
  C2, as stated, has the compensating deletes issued whether or not the persist of
  \<^verbatim>\<open>"Failed"\<close> succeeded.  On the run of the witness the secret was created, the service
  create failed, the persist failed, and the secret is never deleted.
\<close>

theorem failed_persist_blocks_rollback_counterexample:
  "\<not> (list_ex is_create (succeeded (trace (run_add serviceAndStatusFail db1 []))) \<and>
      list_ex is_create (failed (trace (run_add serviceAndStatusFail db1 []))) \<and>
      ''Failed'' \<in> set (rejected (run_add serviceAndStatusFail db1 []))
      \<longrightarrow> SecretsDelete ''default'' ''mysql-password''
            \<in> set (calls (run_add serviceAndStatusFail db1 [])))"
  by (simp add: serviceAndStatusFail_trace observers)

text \<open>
  C3.  An ADD for a resource in which no call fails returns after exactly three create
  calls, for the Credential Store, the Network Service and the Stateful Workload in that
  order, and no delete call.  The one status update it issues carries
  \<^verbatim>\<open>"Received In ADD"\<close>, which is therefore the last status persisted.
\<close>

theorem add_success_ordered_creation:
  assumes "failed (trace (run_add c cr s)) = []"
  shows "returned (add c (MySQLPtr (Some cr)) s) \<and>
     creates (run_add c cr s) =
       [SecretsCreate (nsOf cr) secret, ServicesCreate (nsOf cr) service,
        StatefulSetsCreate (nsOf cr) (sts (withMessage ''Received In ADD'' cr))] \<and>
     deletes (run_add c cr s) = [] \<and>
     status_updates (run_add c cr s) = [statusCall ''Received In ADD'' cr] \<and>
     persisted (run_add c cr s) = [''Received In ADD'']"
  using assms
  by (cases rule: add_cases [of c cr s]) (simp_all add: observers split: if_splits)

text \<open>C3, witness: \<open>db1\<close> against clients that never fail.\<close>

theorem add_success_ordered_creation_witness:
  "failed (trace (run_add reliable db1 [])) = [] \<and>
   creates (run_add reliable db1 []) =
     [SecretsCreate ''default'' secret, ServicesCreate ''default'' service,
      StatefulSetsCreate ''default'' (sts (withMessage ''Received In ADD'' db1))] \<and>
   deletes (run_add reliable db1 []) = [] \<and>
   persisted (run_add reliable db1 []) = [''Received In ADD'']"
proof -
  have h: "failed (trace (run_add reliable db1 [])) = []"
    by (simp add: reliable_trace observers)
  from add_success_ordered_creation [OF h] h show ?thesis
    by (simp add: concrete)
qed

text \<open>
  C4, as the handler behaves.  When the Network Service create call fails and the persist
  of \<^verbatim>\<open>"Failed"\<close> succeeds, the handler issues exactly one delete call, for the
  Credential Store, and no Stateful Workload create call; the statuses persisted are
  \<^verbatim>\<open>"Received In ADD"\<close> and then \<^verbatim>\<open>"Failed"\<close>.
\<close>

theorem service_failure_compensation:
  assumes "list_ex is_ServicesCreate (failed (trace (run_add c cr s)))"
    and "''Failed'' \<in> set (persisted (run_add c cr s))"
  shows "deletes (run_add c cr s) = [SecretsDelete (nsOf cr) secretName] \<and>
     filter is_StatefulSetsCreate (calls (run_add c cr s)) = [] \<and>
     status_updates (run_add c cr s) =
       [statusCall ''Received In ADD'' cr, statusCall ''Failed'' cr] \<and>
     persisted (run_add c cr s) = [''Received In ADD'', ''Failed'']"
  using assms
  by (cases rule: add_cases [of c cr s]) (simp_all add: observers split: if_splits)

text \<open>C4, witness: the service create fails for \<open>db1\<close> and every other call succeeds.\<close>

theorem service_failure_compensation_witness:
  "list_ex is_ServicesCreate (failed (trace (run_add serviceFails db1 []))) \<and>
   ''Failed'' \<in> set (persisted (run_add serviceFails db1 [])) \<and>
   deletes (run_add serviceFails db1 []) = [SecretsDelete ''default'' ''mysql-password''] \<and>
   filter is_StatefulSetsCreate (calls (run_add serviceFails db1 [])) = [] \<and>
   persisted (run_add serviceFails db1 []) = [''Received In ADD'', ''Failed'']"
proof -
  have h1: "list_ex is_ServicesCreate (failed (trace (run_add serviceFails db1 [])))"
    by (simp add: serviceFails_trace observers)
  have h2: "''Failed'' \<in> set (persisted (run_add serviceFails db1 []))"
    by (simp add: serviceFails_trace observers)
  from service_failure_compensation [OF h1 h2] h1 h2 show ?thesis
    by (simp add: concrete)
qed

text \<open>
  C4, as stated, promises the one delete call whenever the service create fails.  When
  the persist of \<^verbatim>\<open>"Failed"\<close> fails as well, the store observes no delete call.
\<close>

theorem service_failure_one_delete_counterexample:
  "\<not> (list_ex is_ServicesCreate (failed (trace (run_add serviceAndStatusFail db1 [])))
      \<longrightarrow> deletes (run_add serviceAndStatusFail db1 []) =
            [SecretsDelete ''default'' ''mysql-password''])"
  by (simp add: serviceAndStatusFail_trace observers)

text \<open>
  C6.  When the persist of \<^verbatim>\<open>"Received In ADD"\<close> fails, the handler returns having issued
  that status update and nothing else: no create call and no delete call.
\<close>

theorem initial_persist_failure_aborts:
  assumes "''Received In ADD'' \<in> set (rejected (run_add c cr s))"
  shows "returned (add c (MySQLPtr (Some cr)) s) \<and>
     calls (run_add c cr s) = [statusCall ''Received In ADD'' cr] \<and>
     creates (run_add c cr s) = [] \<and>
     deletes (run_add c cr s) = []"
  using assms
  by (cases rule: add_cases [of c cr s]) (simp_all add: observers split: if_splits)

text \<open>C6, witness: every status update fails.\<close>

theorem initial_persist_failure_aborts_witness:
  "''Received In ADD'' \<in> set (rejected (run_add statusFails db1 [])) \<and>
   calls (run_add statusFails db1 []) = [statusCall ''Received In ADD'' db1] \<and>
   creates (run_add statusFails db1 []) = [] \<and>
   deletes (run_add statusFails db1 []) = []"
proof -
  have h: "''Received In ADD'' \<in> set (rejected (run_add statusFails db1 []))"
    by (simp add: statusFails_trace observers)
  from initial_persist_failure_aborts [OF h] h show ?thesis
    by simp
qed

section \<open>The resources created\<close>

text \<open>
  C7.  For the resource \<open>db1\<close> (namespace \<^verbatim>\<open>default\<close>, name \<^verbatim>\<open>db1\<close>, version \<^verbatim>\<open>8.0\<close>), an
  ADD in which no call fails submits the status \<^verbatim>\<open>"Received In ADD"\<close>, then creates a
  secret named \<^verbatim>\<open>mysql-password\<close>, a service named \<^verbatim>\<open>mysql\<close> with port 3306 and selector
  \<^verbatim>\<open>{app: mysql}\<close>, and a stateful set named \<^verbatim>\<open>db1-deployment\<close> with one replica and the
  container image \<^verbatim>\<open>arm64v8/mysql:8.0\<close>, the image prefix followed by the version.
\<close>

theorem db1_successful_add:
  assumes "failed (trace (run_add c db1 s)) = []"
  shows "\<exists>sec svc st.
     calls (run_add c db1 s) =
       [UpdateStatus ''default'' (withMessage ''Received In ADD'' db1),
        SecretsCreate ''default'' sec,
        ServicesCreate ''default'' svc,
        StatefulSetsCreate ''default'' st] \<and>
     Name (Secret_ObjectMeta sec) = ''mysql-password'' \<and>
     Name (Service_ObjectMeta svc) = ''mysql'' \<and>
     Ports (Service_Spec svc) = [\<lparr>Port = 3306\<rparr>] \<and>
     ServiceSpec_Selector (Service_Spec svc) = [(''app'', ''mysql'')] \<and>
     Name (StatefulSet_ObjectMeta st) = ''db1-deployment'' \<and>
     Replicas (StatefulSet_Spec st) = Some 1 \<and>
     map Image (Containers (PodTemplateSpec_Spec (Template (StatefulSet_Spec st)))) =
       [''arm64v8/mysql:8.0''] \<and>
     ''arm64v8/mysql:8.0'' = imagePrefix @ Version (MySQL_Spec db1)"
  using assms
  by (cases rule: add_cases [of c db1 s])
     (simp_all add: observers literals concrete split: if_splits)

text \<open>C7, witness: \<open>db1\<close> against clients that never fail.\<close>

theorem db1_successful_add_witness:
  "failed (trace (run_add reliable db1 [])) = [] \<and>
   (\<exists>sec svc st.
     calls (run_add reliable db1 []) =
       [UpdateStatus ''default'' (withMessage ''Received In ADD'' db1),
        SecretsCreate ''default'' sec,
        ServicesCreate ''default'' svc,
        StatefulSetsCreate ''default'' st] \<and>
     Name (Secret_ObjectMeta sec) = ''mysql-password'' \<and>
     Name (Service_ObjectMeta svc) = ''mysql'' \<and>
     Name (StatefulSet_ObjectMeta st) = ''db1-deployment'')"
proof -
  have h: "failed (trace (run_add reliable db1 [])) = []"
    by (simp add: reliable_trace observers)
  from db1_successful_add [OF h] obtain sec svc st where
    "calls (run_add reliable db1 []) =
       [UpdateStatus ''default'' (withMessage ''Received In ADD'' db1),
        SecretsCreate ''default'' sec,
        ServicesCreate ''default'' svc,
        StatefulSetsCreate ''default'' st]"
    "Name (Secret_ObjectMeta sec) = ''mysql-password''"
    "Name (Service_ObjectMeta svc) = ''mysql''"
    "Name (StatefulSet_ObjectMeta st) = ''db1-deployment''"
    by blast
  with h show ?thesis by blast
qed

text \<open>
  C8, evaluated on the run of \<open>db1\<close> against clients that never fail.  The stateful set
  submitted carries one volume claim template.  Its storage request and its storage limit
  are quantities whose amount fields are all zero; \<^verbatim>\<open>"1Gi"\<close> and \<^verbatim>\<open>"2Gi"\<close> sit in the
  field \<^verbatim>\<open>Format\<close>, which says how to print an amount and holds none.
\<close>

theorem sts_storage_amounts_are_zero:
  "filter is_StatefulSetsCreate (calls (run_add reliable db1 [])) =
     [StatefulSetsCreate ''default'' (sts (withMessage ''Received In ADD'' db1))] \<and>
   map (Requests \<circ> Resources \<circ> PersistentVolumeClaim_Spec)
       (VolumeClaimTemplates (StatefulSet_Spec (sts (withMessage ''Received In ADD'' db1)))) =
     [[(''storage'',
        \<lparr>Quantity_i = \<lparr>amount_value = 0, amount_scale = 0\<rparr>, Quantity_d = None,
         Quantity_s = [], Format = ''1Gi''\<rparr>)]] \<and>
   map (Limits \<circ> Resources \<circ> PersistentVolumeClaim_Spec)
       (VolumeClaimTemplates (StatefulSet_Spec (sts (withMessage ''Received In ADD'' db1)))) =
     [[(''storage'',
        \<lparr>Quantity_i = \<lparr>amount_value = 0, amount_scale = 0\<rparr>, Quantity_d = None,
         Quantity_s = [], Format = ''2Gi''\<rparr>)]]"
  by (simp add: reliable_trace observers literals)

text \<open>
  The rest of what C8 lists holds for every resource: the volume \<^verbatim>\<open>mysql-store\<close> is
  mounted at \<^verbatim>\<open>/var/lib/mysql\<close>, the variable \<^verbatim>\<open>MYSQL_ROOT_PASSWORD\<close> is read from the key
  of that name in the secret \<^verbatim>\<open>mysql-password\<close>, and the termination grace period is set,
  to 10 seconds.
\<close>

lemma sts_pod_template:
  "map VolumeMounts (Containers (PodTemplateSpec_Spec (Template (StatefulSet_Spec (sts ret))))) =
     [[\<lparr>VolumeMount_Name = ''mysql-store'', MountPath = ''/var/lib/mysql''\<rparr>]] \<and>
   map Env (Containers (PodTemplateSpec_Spec (Template (StatefulSet_Spec (sts ret))))) =
     [[\<lparr>EnvVar_Name = ''MYSQL_ROOT_PASSWORD'', EnvVar_Value = [],
        ValueFrom = Some \<lparr>SecretKeyRef = Some
          \<lparr>SecretKeySelector_LocalObjectReference =
             \<lparr>LocalObjectReference_Name = ''mysql-password''\<rparr>,
           Key = ''MYSQL_ROOT_PASSWORD''\<rparr>\<rparr>\<rparr>]] \<and>
   TerminationGracePeriodSeconds (PodTemplateSpec_Spec (Template (StatefulSet_Spec (sts ret)))) =
     Some 10 \<and>
   map (Name \<circ> PersistentVolumeClaim_ObjectMeta)
     (VolumeClaimTemplates (StatefulSet_Spec (sts ret))) = [''mysql-store'']"
  by (simp add: literals)

lemma created_secrets_add:
  "created_secrets (calls (run_add c cr s)) =
     (if persisted (run_add c cr s) = [] then [] else [secret])"
  by (cases rule: add_cases [of c cr s]) (simp_all add: observers split: if_splits)

text \<open>
  C10.  Whatever the resource, the clients and the store, an ADD creates no secret when
  the first status persist fails and otherwise creates this one: named
  \<^verbatim>\<open>mysql-password\<close>, of type \<^verbatim>\<open>Opaque\<close>, with the single entry of key
  \<^verbatim>\<open>MYSQL_ROOT_PASSWORD\<close> and value \<^verbatim>\<open>bytedance\<close>.  So any two runs that create a secret
  create the same one.
\<close>

theorem secret_is_constant:
  fixes c :: "'s Controller" and c' :: "'t Controller"
  shows "created_secrets (calls (run_add c cr s)) =
     (if persisted (run_add c cr s) = [] then []
      else [\<lparr>Secret_ObjectMeta = \<lparr>Name = ''mysql-password'', Namespace = [], Labels = []\<rparr>,
             Secret_Type = ''Opaque'',
             StringData = [(''MYSQL_ROOT_PASSWORD'', ''bytedance'')]\<rparr>]) \<and>
    (created_secrets (calls (run_add c cr s)) \<noteq> [] \<and>
     created_secrets (calls (run_add c' cr' s')) \<noteq> []
     \<longrightarrow> created_secrets (calls (run_add c cr s)) = created_secrets (calls (run_add c' cr' s')))"
  by (simp add: created_secrets_add) (simp add: literals)

text \<open>
  C10, witness: \<open>db1\<close> against clients that never fail, and \<open>db2\<close> (another namespace, name
  and version) against a client whose workload create fails.
\<close>

theorem secret_is_constant_witness:
  "created_secrets (calls (run_add reliable db1 [])) \<noteq> [] \<and>
   created_secrets (calls (run_add stsFails db2 [])) \<noteq> [] \<and>
   created_secrets (calls (run_add reliable db1 [])) =
     created_secrets (calls (run_add stsFails db2 [])) \<and>
   map StringData (created_secrets (calls (run_add stsFails db2 []))) =
     [[(''MYSQL_ROOT_PASSWORD'', ''bytedance'')]]"
proof -
  have h1: "created_secrets (calls (run_add reliable db1 [])) \<noteq> []"
    by (simp add: reliable_trace observers)
  have h2: "created_secrets (calls (run_add stsFails db2 [])) \<noteq> []"
    by (simp add: stsFails_db2_trace observers)
  note both = secret_is_constant [of reliable db1 "[]" stsFails db2 "[]"]
  from both h1 h2
  have same: "created_secrets (calls (run_add reliable db1 [])) =
      created_secrets (calls (run_add stsFails db2 []))"
    by blast
  from both h1 have "map StringData (created_secrets (calls (run_add reliable db1 []))) =
      [[(''MYSQL_ROOT_PASSWORD'', ''bytedance'')]]"
    by (simp split: if_splits)
  with same h1 h2 show ?thesis
    by simp
qed

section \<open>UPDATE and DELETE\<close>

text \<open>
  C9.  Whatever the two snapshots of an UPDATE are, the handler issues no call at all (no
  create, no delete, no status update) and leaves the store as it was.  When both are
  resources it asserts the type of each and returns after logging the event, the old
  snapshot and the new one.
\<close>

theorem update_is_noop:
  "calls (world_of (update c old new s)) = [] \<and>
   creates (world_of (update c old new s)) = [] \<and>
   deletes (world_of (update c old new s)) = [] \<and>
   status_updates (world_of (update c old new s)) = [] \<and>
   store (world_of (update c old new s)) = s \<and>
   update c (MySQLPtr (Some oldObj)) (MySQLPtr (Some newObj)) s =
     Return \<lparr>store = s, trace = [],
             logs = [InfoS ''Receive UPDATE Event.'' [],
                     InfoS ''old'' (kvv oldObj), InfoS ''new'' (kvv newObj)]\<rparr>"
  by (simp add: update_def klog_def init_def Let_def observers kvv_def nsOf_def nameOf_def
      split: obj.splits option.splits)

text \<open>
  C5.  For a DELETE carrying a resource, whatever the clients answer, the handler returns
  after issuing exactly four delete calls in this order: the resource itself, the
  Credential Store, the Network Service, and the Stateful Workload under the resource's
  name followed by \<^verbatim>\<open>-deployment\<close>.
\<close>

theorem delete_issues_all_four:
  "returned (delete c (MySQLPtr (Some cr)) s) \<and>
   calls (world_of (delete c (MySQLPtr (Some cr)) s)) =
     [MySQLsDelete (nsOf cr) (nameOf cr),
      SecretsDelete (nsOf cr) secretName,
      ServicesDelete (nsOf cr) serviceName,
      StatefulSetsDelete (nsOf cr) (nameOf cr @ ''-deployment'')]"
  by (simp add: delete_def invoke_def klog_def init_def Let_def calls_def nsOf_def nameOf_def
      split: prod.splits)

end
